theory Spec2Isabelle
  imports Main
begin

section \<open>JSON values\<close>

text \<open>
  The job models of \<^verbatim>\<open>nisystemlink.clients.system.models\<close> are pydantic classes whose
  instances are exchanged with the service as JSON objects.  A value annotated
  \<^verbatim>\<open>typing.Any\<close> (an element of an inner list of \<^verbatim>\<open>arguments\<close>, a value of
  \<^verbatim>\<open>metadata\<close>) is modelled by the JSON value it is sent as.  A Python \<^verbatim>\<open>dict\<close> keeps its
  insertion order, so an object is an association list.  Floating-point numbers are left
  out of the value type.
\<close>

datatype json =
    JNull
  | JBool bool
  | JInt int
  | JStr string
  | JList "json list"
  | JObj "(string \<times> json) list"

type_synonym jobject = "(string \<times> json) list"

section \<open>Field declarations\<close>

text \<open>
  A class attribute \<^verbatim>\<open>x: T = Field(None, alias="a")\<close> declares the field \<^verbatim>\<open>x\<close> with the
  alias \<^verbatim>\<open>a\<close> and the default \<^verbatim>\<open>None\<close>; \<^verbatim>\<open>x: T = None\<close> declares a field with no alias
  and the default \<^verbatim>\<open>None\<close>.
\<close>

record field =
  field_name :: string
  field_alias :: "string option"

text \<open>The key of a field in the aliased form: its alias, or its own name when it has none.\<close>

definition wire_key :: "field \<Rightarrow> string" where
  "wire_key f = (case field_alias f of Some a \<Rightarrow> a | None \<Rightarrow> field_name f)"

text \<open>\<^verbatim>\<open>_create_job_request.py\<close>, lines 10 to 20.\<close>

definition CreateJobRequest_arguments :: field where
  "CreateJobRequest_arguments = \<lparr>field_name = ''arguments'', field_alias = Some ''args''\<rparr>"

definition CreateJobRequest_target_systems :: field where
  "CreateJobRequest_target_systems = \<lparr>field_name = ''target_systems'', field_alias = Some ''tgt''\<rparr>"

definition CreateJobRequest_functions :: field where
  "CreateJobRequest_functions = \<lparr>field_name = ''functions'', field_alias = Some ''fun''\<rparr>"

definition CreateJobRequest_metadata :: field where
  "CreateJobRequest_metadata = \<lparr>field_name = ''metadata'', field_alias = None\<rparr>"

text \<open>\<^verbatim>\<open>_cancel_job_request.py\<close>, lines 9 to 13: neither field is given an alias.\<close>

definition CancelJobRequest_jid :: field where
  "CancelJobRequest_jid = \<lparr>field_name = ''jid'', field_alias = None\<rparr>"

definition CancelJobRequest_system_id :: field where
  "CancelJobRequest_system_id = \<lparr>field_name = ''system_id'', field_alias = None\<rparr>"

section \<open>The model instances\<close>

text \<open>Every annotation is \<^verbatim>\<open>Optional[...]\<close> with the default \<^verbatim>\<open>None\<close>.\<close>

record CreateJobRequest =
  arguments :: "json list list option"
  target_systems :: "string list option"
  functions' :: "string list option"
  metadata :: "jobject option"

record CancelJobRequest =
  jid :: "string option"
  system_id :: "string option"

section \<open>Validation of field values\<close>

text \<open>
  A JSON string is accepted unchanged where \<^verbatim>\<open>str\<close> is annotated, and a JSON object
  where \<^verbatim>\<open>Dict[str, Any]\<close> is.  What pydantic does with a value of another kind in these
  places (conversion of a number to a string, say, or rejection) depends on its version
  and mode; it is the parameter \<open>lax\<close> of the validators, and the results below hold for
  every choice of it.
\<close>

record coercion =
  str_of :: "json \<Rightarrow> string option"
  dict_of :: "json \<Rightarrow> jobject option"

datatype error = ValidationError "string list"

fun str_validator :: "coercion \<Rightarrow> json \<Rightarrow> string option" where
  "str_validator lax (JStr s) = Some s"
| "str_validator lax v = str_of lax v"

fun dict_validator :: "coercion \<Rightarrow> json \<Rightarrow> jobject option" where
  "dict_validator lax (JObj kvs) = Some kvs"
| "dict_validator lax v = dict_of lax v"

text \<open>\<^verbatim>\<open>List[Any]\<close>: the value must be a list; its elements are not looked at.\<close>

fun list_any_validator :: "json \<Rightarrow> json list option" where
  "list_any_validator (JList xs) = Some xs"
| "list_any_validator v = None"

text \<open>All elements of a list must validate.\<close>

fun validate_each :: "(json \<Rightarrow> 'a option) \<Rightarrow> json list \<Rightarrow> 'a list option" where
  "validate_each v [] = Some []"
| "validate_each v (x # xs) =
     (case v x of
        None \<Rightarrow> None
      | Some y \<Rightarrow> (case validate_each v xs of None \<Rightarrow> None | Some ys \<Rightarrow> Some (y # ys)))"

fun list_validator :: "(json \<Rightarrow> 'a option) \<Rightarrow> json \<Rightarrow> 'a list option" where
  "list_validator v (JList xs) = validate_each v xs"
| "list_validator v x = None"

text \<open>\<^verbatim>\<open>Optional[T]\<close>: \<^verbatim>\<open>None\<close> is allowed and kept; anything else is validated as \<^verbatim>\<open>T\<close>.\<close>

fun optional :: "(json \<Rightarrow> 'a option) \<Rightarrow> json \<Rightarrow> 'a option option" where
  "optional v JNull = Some None"
| "optional v x = (case v x of None \<Rightarrow> None | Some y \<Rightarrow> Some (Some y))"

section \<open>Construction from keyword arguments or from a parsed object\<close>

text \<open>
  Modelled from the spec: the base class \<^verbatim>\<open>JsonModel\<close>
  (\<^verbatim>\<open>nisystemlink/clients/core/_uplink/_json_model.py\<close>) and the converters that turn a
  model into the request body are not among the sources.  The spec has requests
  "with fields set via semantic names" and the tests build them through the wire names
  (\<^verbatim>\<open>CreateJobRequest(tgt=tgt, fun=fun)\<close>), so a field is populated from its alias and,
  when the alias is absent from the input, from its name.  Keys that name no field are
  ignored.  "Omitted fields are not sent": a field that is \<^verbatim>\<open>None\<close> has no entry in the
  serialized object.
\<close>

definition get_field :: "field \<Rightarrow> jobject \<Rightarrow> json option" where
  "get_field f d =
     (case map_of d (wire_key f) of
        Some v \<Rightarrow> Some v
      | None \<Rightarrow> map_of d (field_name f))"

text \<open>
  A field missing from the input takes its default \<^verbatim>\<open>None\<close> without validation; a value
  that fails validation is reported under the field's key.
\<close>

definition validate_field ::
  "(json \<Rightarrow> 'a option) \<Rightarrow> field \<Rightarrow> jobject \<Rightarrow> string list + 'a option" where
  "validate_field v f d =
     (case get_field f d of
        None \<Rightarrow> Inr None
      | Some x \<Rightarrow> (case optional v x of None \<Rightarrow> Inl [wire_key f] | Some y \<Rightarrow> Inr y))"

definition errors_of :: "string list + 'a \<Rightarrow> string list" where
  "errors_of r = (case r of Inl es \<Rightarrow> es | Inr y \<Rightarrow> [])"

definition CreateJobRequest_init :: "coercion \<Rightarrow> jobject \<Rightarrow> error + CreateJobRequest" where
  "CreateJobRequest_init lax d =
     (let a = validate_field (list_validator list_any_validator) CreateJobRequest_arguments d;
          t = validate_field (list_validator (str_validator lax)) CreateJobRequest_target_systems d;
          f = validate_field (list_validator (str_validator lax)) CreateJobRequest_functions d;
          m = validate_field (dict_validator lax) CreateJobRequest_metadata d
      in case (a, t, f, m) of
           (Inr a', Inr t', Inr f', Inr m') \<Rightarrow>
             Inr \<lparr>arguments = a', target_systems = t', functions' = f', metadata = m'\<rparr>
         | _ \<Rightarrow> Inl (ValidationError (errors_of a @ errors_of t @ errors_of f @ errors_of m)))"

definition CancelJobRequest_init :: "coercion \<Rightarrow> jobject \<Rightarrow> error + CancelJobRequest" where
  "CancelJobRequest_init lax d =
     (let j = validate_field (str_validator lax) CancelJobRequest_jid d;
          s = validate_field (str_validator lax) CancelJobRequest_system_id d
      in case (j, s) of
           (Inr j', Inr s') \<Rightarrow> Inr \<lparr>jid = j', system_id = s'\<rparr>
         | _ \<Rightarrow> Inl (ValidationError (errors_of j @ errors_of s)))"

text \<open>\<^verbatim>\<open>parse_obj\<close> builds the instance from the members of a parsed JSON object.\<close>

definition CreateJobRequest_parse_obj :: "coercion \<Rightarrow> jobject \<Rightarrow> error + CreateJobRequest" where
  "CreateJobRequest_parse_obj lax d = CreateJobRequest_init lax d"

definition CancelJobRequest_parse_obj :: "coercion \<Rightarrow> jobject \<Rightarrow> error + CancelJobRequest" where
  "CancelJobRequest_parse_obj lax d = CancelJobRequest_init lax d"

section \<open>Serialization\<close>

definition json_of_list_list :: "json list list \<Rightarrow> json" where
  "json_of_list_list xss = JList (map JList xss)"

definition json_of_str_list :: "string list \<Rightarrow> json" where
  "json_of_str_list ss = JList (map JStr ss)"

text \<open>
  Modelled from the spec: the converter that turns a model into a request body is not
  among the sources; by the spec "omitted fields are not sent".  One field of the
  exported dictionary is nothing when the field is \<^verbatim>\<open>None\<close>, else one entry under the
  alias (\<^verbatim>\<open>by_alias=True\<close>) or under the field name.
\<close>

definition emit :: "bool \<Rightarrow> field \<Rightarrow> ('a \<Rightarrow> json) \<Rightarrow> 'a option \<Rightarrow> jobject" where
  "emit by_alias f enc v =
     (case v of
        None \<Rightarrow> []
      | Some x \<Rightarrow> [(if by_alias then wire_key f else field_name f, enc x)])"

definition CreateJobRequest_dict :: "bool \<Rightarrow> CreateJobRequest \<Rightarrow> jobject" where
  "CreateJobRequest_dict by_alias r =
     emit by_alias CreateJobRequest_arguments json_of_list_list (arguments r)
     @ emit by_alias CreateJobRequest_target_systems json_of_str_list (target_systems r)
     @ emit by_alias CreateJobRequest_functions json_of_str_list (functions' r)
     @ emit by_alias CreateJobRequest_metadata JObj (metadata r)"

definition CancelJobRequest_dict :: "bool \<Rightarrow> CancelJobRequest \<Rightarrow> jobject" where
  "CancelJobRequest_dict by_alias r =
     emit by_alias CancelJobRequest_jid JStr (jid r)
     @ emit by_alias CancelJobRequest_system_id JStr (system_id r)"

section \<open>Validators undo the encoders\<close>

lemma validate_each_list_any [simp]:
  "validate_each list_any_validator (map JList xss) = Some xss"
  by (induction xss) simp_all

lemma validate_each_str [simp]:
  "validate_each (str_validator lax) (map JStr ss) = Some ss"
  by (induction ss) simp_all

lemma optional_list_list [simp]:
  "optional (list_validator list_any_validator) (json_of_list_list xss) = Some (Some xss)"
  by (simp add: json_of_list_list_def)

lemma optional_str_list [simp]:
  "optional (list_validator (str_validator lax)) (json_of_str_list ss) = Some (Some ss)"
  by (simp add: json_of_str_list_def)

lemma optional_dict [simp]:
  "optional (dict_validator lax) (JObj kvs) = Some (Some kvs)"
  by simp

lemma optional_str [simp]:
  "optional (str_validator lax) (JStr s) = Some (Some s)"
  by simp

lemmas field_defs =
  CreateJobRequest_arguments_def CreateJobRequest_target_systems_def
  CreateJobRequest_functions_def CreateJobRequest_metadata_def
  CancelJobRequest_jid_def CancelJobRequest_system_id_def

lemmas model_defs =
  CreateJobRequest_init_def CreateJobRequest_parse_obj_def CreateJobRequest_dict_def
  CancelJobRequest_init_def CancelJobRequest_parse_obj_def CancelJobRequest_dict_def
  validate_field_def get_field_def emit_def wire_key_def errors_of_def

section \<open>Round trip through the wire form\<close>

lemma CreateJobRequest_init_dict:
  "CreateJobRequest_init lax (CreateJobRequest_dict b r) = Inr r"
  by (cases r; cases "arguments r"; cases "target_systems r"; cases "functions' r";
      cases "metadata r"; cases b)
     (simp_all add: model_defs field_defs)

lemma CancelJobRequest_init_dict:
  "CancelJobRequest_init lax (CancelJobRequest_dict b r) = Inr r"
  by (cases r; cases "jid r"; cases "system_id r"; cases b)
     (simp_all add: model_defs field_defs)

text \<open>
  The integration tests build their requests with the keyword \<^verbatim>\<open>arg\<close>
  (\<^verbatim>\<open>CreateJobRequest(arg=arg, tgt=tgt, fun=fun, metadata=metadata)\<close>).  The alias
  declared for \<^verbatim>\<open>arguments\<close> is \<^verbatim>\<open>args\<close>, so \<^verbatim>\<open>arg\<close> names no field and the request is
  built without arguments.
\<close>

lemma CreateJobRequest_init_arg_ignored:
  "CreateJobRequest_init lax
     [(''arg'', JList [JList [JStr ''A description'']]),
      (''tgt'', JList [JStr ''sys-1'']),
      (''fun'', JList [JStr ''system.set_computer_desc'']),
      (''metadata'', JObj [(''queued'', JBool True)])]
   = Inr \<lparr>arguments = None, target_systems = Some [''sys-1''],
          functions' = Some [''system.set_computer_desc''],
          metadata = Some [(''queued'', JBool True)]\<rparr>"
  by (simp add: model_defs field_defs)

text \<open>
  C1.  Round trip of \<^verbatim>\<open>CreateJobRequest\<close>.  Every request \<open>r\<close> is the instance that the
  constructor builds from the keyword arguments naming the set fields of \<open>r\<close> by their
  semantic names (\<open>CreateJobRequest_dict False r\<close>), and parsing the aliased form of
  \<open>r\<close> (\<open>CreateJobRequest_dict True r\<close>) gives \<open>r\<close> back: \<^verbatim>\<open>arguments\<close>,
  \<^verbatim>\<open>target_systems\<close>, \<^verbatim>\<open>functions\<close> and \<^verbatim>\<open>metadata\<close> are the originals.
\<close>

theorem CreateJobRequest_roundtrip:
  "CreateJobRequest_init lax (CreateJobRequest_dict False r) = Inr r
   \<and> CreateJobRequest_parse_obj lax (CreateJobRequest_dict True r) = Inr r"
  by (simp add: CreateJobRequest_init_dict CreateJobRequest_parse_obj_def)

theorem CreateJobRequest_roundtrip_witness:
  "CreateJobRequest_init \<lparr>str_of = (\<lambda>v. None), dict_of = (\<lambda>v. None)\<rparr>
     [(''arguments'', JList [JList [JStr ''A description'']]),
      (''target_systems'', JList [JStr ''sys-1'']),
      (''functions'', JList [JStr ''system.set_computer_desc'']),
      (''metadata'', JObj [(''queued'', JBool True)])]
   = Inr \<lparr>arguments = Some [[JStr ''A description'']], target_systems = Some [''sys-1''],
          functions' = Some [''system.set_computer_desc''],
          metadata = Some [(''queued'', JBool True)]\<rparr>
   \<and> CreateJobRequest_parse_obj \<lparr>str_of = (\<lambda>v. None), dict_of = (\<lambda>v. None)\<rparr>
     [(''args'', JList [JList [JStr ''A description'']]),
      (''tgt'', JList [JStr ''sys-1'']),
      (''fun'', JList [JStr ''system.set_computer_desc'']),
      (''metadata'', JObj [(''queued'', JBool True)])]
   = Inr \<lparr>arguments = Some [[JStr ''A description'']], target_systems = Some [''sys-1''],
          functions' = Some [''system.set_computer_desc''],
          metadata = Some [(''queued'', JBool True)]\<rparr>"
  using CreateJobRequest_roundtrip
    [of "\<lparr>str_of = (\<lambda>v. None), dict_of = (\<lambda>v. None)\<rparr>"
        "\<lparr>arguments = Some [[JStr ''A description'']], target_systems = Some [''sys-1''],
          functions' = Some [''system.set_computer_desc''],
          metadata = Some [(''queued'', JBool True)]\<rparr>"]
  by (simp add: CreateJobRequest_dict_def emit_def wire_key_def field_defs
      json_of_list_list_def json_of_str_list_def)

text \<open>
  C2.  In the aliased form of every \<^verbatim>\<open>CreateJobRequest\<close> the value of \<^verbatim>\<open>arguments\<close> is
  under the key \<^verbatim>\<open>args\<close>, that of \<^verbatim>\<open>target_systems\<close> under \<^verbatim>\<open>tgt\<close> and that of
  \<^verbatim>\<open>functions\<close> under \<^verbatim>\<open>fun\<close> (each key absent exactly when the field is unset), and the
  three semantic names are not keys.  In the other direction, an object with the keys
  \<^verbatim>\<open>args\<close>, \<^verbatim>\<open>tgt\<close> and \<^verbatim>\<open>fun\<close> parses to the request with these three fields.
\<close>

theorem CreateJobRequest_wire_names:
  "map_of (CreateJobRequest_dict True r) ''args'' = map_option json_of_list_list (arguments r)
   \<and> map_of (CreateJobRequest_dict True r) ''tgt'' = map_option json_of_str_list (target_systems r)
   \<and> map_of (CreateJobRequest_dict True r) ''fun'' = map_option json_of_str_list (functions' r)
   \<and> map_of (CreateJobRequest_dict True r) ''arguments'' = None
   \<and> map_of (CreateJobRequest_dict True r) ''target_systems'' = None
   \<and> map_of (CreateJobRequest_dict True r) ''functions'' = None
   \<and> CreateJobRequest_parse_obj lax
         [(''args'', json_of_list_list a), (''tgt'', json_of_str_list t),
          (''fun'', json_of_str_list f)]
       = Inr \<lparr>arguments = Some a, target_systems = Some t, functions' = Some f,
              metadata = None\<rparr>"
  by (cases r; cases "arguments r"; cases "target_systems r"; cases "functions' r";
      cases "metadata r")
     (simp_all add: model_defs field_defs)

theorem CreateJobRequest_wire_names_witness:
  "CreateJobRequest_dict True
     \<lparr>arguments = Some [[JStr ''A description'']], target_systems = Some [''sys-1''],
      functions' = Some [''system.set_computer_desc''], metadata = None\<rparr>
   = [(''args'', JList [JList [JStr ''A description'']]),
      (''tgt'', JList [JStr ''sys-1'']),
      (''fun'', JList [JStr ''system.set_computer_desc''])]
   \<and> CreateJobRequest_parse_obj \<lparr>str_of = (\<lambda>v. None), dict_of = (\<lambda>v. None)\<rparr>
       [(''args'', JList [JList [JStr ''A description'']]),
        (''tgt'', JList [JStr ''sys-1'']),
        (''fun'', JList [JStr ''system.set_computer_desc''])]
     = Inr \<lparr>arguments = Some [[JStr ''A description'']], target_systems = Some [''sys-1''],
            functions' = Some [''system.set_computer_desc''], metadata = None\<rparr>"
  using CreateJobRequest_wire_names
    [of "\<lparr>arguments = Some [[JStr ''A description'']], target_systems = Some [''sys-1''],
          functions' = Some [''system.set_computer_desc''], metadata = None\<rparr>"
        "\<lparr>str_of = (\<lambda>v. None), dict_of = (\<lambda>v. None)\<rparr>"
        "[[JStr ''A description'']]" "[''sys-1'']" "[''system.set_computer_desc'']"]
  by (simp add: CreateJobRequest_dict_def emit_def wire_key_def field_defs
      json_of_list_list_def json_of_str_list_def)

text \<open>
  C3.  \<^verbatim>\<open>CancelJobRequest.system_id\<close> and the wire name \<^verbatim>\<open>tgt\<close>.  The class declares
  \<^verbatim>\<open>system_id\<close> without an alias, so the construction the tests use,
  \<^verbatim>\<open>CancelJobRequest(jid="Invalid_jid", tgt="Invalid_tgt")\<close>, leaves \<^verbatim>\<open>system_id\<close> unset,
  and the aliased form of a request whose \<^verbatim>\<open>system_id\<close> is set has no key \<^verbatim>\<open>tgt\<close>.
\<close>

theorem CancelJobRequest_system_id_not_tgt:
  "CancelJobRequest_init lax [(''jid'', JStr ''Invalid_jid''), (''tgt'', JStr ''Invalid_tgt'')]
     = Inr \<lparr>jid = Some ''Invalid_jid'', system_id = None\<rparr>
   \<and> map_of (CancelJobRequest_dict True
               \<lparr>jid = Some ''Invalid_jid'', system_id = Some ''Invalid_tgt''\<rparr>) ''tgt'' = None"
  by (simp add: model_defs field_defs)

text \<open>
  C4.  Every field of \<^verbatim>\<open>CreateJobRequest\<close> is optional.  \<open>CreateJobRequest_dict False r\<close>
  holds one keyword argument for each field of \<open>r\<close> that is set and none for the others,
  so the first equation covers every subset of the four fields: the constructor accepts
  it, and the fields left out are \<^verbatim>\<open>None\<close> in the instance.  With no argument at all every
  field is \<^verbatim>\<open>None\<close>.  A field given an empty collection is not \<^verbatim>\<open>None\<close>, and the two
  instances differ on the wire: the unset field has no entry, the empty one has.
\<close>

theorem CreateJobRequest_fields_optional:
  "CreateJobRequest_init lax
     (CreateJobRequest_dict False
        \<lparr>arguments = a, target_systems = t, functions' = f, metadata = m\<rparr>)
     = Inr \<lparr>arguments = a, target_systems = t, functions' = f, metadata = m\<rparr>
   \<and> CreateJobRequest_init lax []
     = Inr \<lparr>arguments = None, target_systems = None, functions' = None, metadata = None\<rparr>
   \<and> CreateJobRequest_init lax [(''arguments'', JList [])]
     = Inr \<lparr>arguments = Some [], target_systems = None, functions' = None, metadata = None\<rparr>
   \<and> CreateJobRequest_init lax [(''target_systems'', JList [])]
     = Inr \<lparr>arguments = None, target_systems = Some [], functions' = None, metadata = None\<rparr>
   \<and> CreateJobRequest_init lax [(''functions'', JList [])]
     = Inr \<lparr>arguments = None, target_systems = None, functions' = Some [], metadata = None\<rparr>
   \<and> CreateJobRequest_init lax [(''metadata'', JObj [])]
     = Inr \<lparr>arguments = None, target_systems = None, functions' = None, metadata = Some []\<rparr>
   \<and> CreateJobRequest_init lax [(''arguments'', JList [])] \<noteq> CreateJobRequest_init lax []
   \<and> CreateJobRequest_init lax [(''target_systems'', JList [])] \<noteq> CreateJobRequest_init lax []
   \<and> CreateJobRequest_init lax [(''functions'', JList [])] \<noteq> CreateJobRequest_init lax []
   \<and> CreateJobRequest_init lax [(''metadata'', JObj [])] \<noteq> CreateJobRequest_init lax []
   \<and> CreateJobRequest_dict True
       \<lparr>arguments = None, target_systems = None, functions' = None, metadata = None\<rparr> = []
   \<and> CreateJobRequest_dict True
       \<lparr>arguments = Some [], target_systems = Some [], functions' = Some [], metadata = Some []\<rparr>
     = [(''args'', JList []), (''tgt'', JList []), (''fun'', JList []), (''metadata'', JObj [])]"
proof -
  have subset: "CreateJobRequest_init lax
     (CreateJobRequest_dict False
        \<lparr>arguments = a, target_systems = t, functions' = f, metadata = m\<rparr>)
     = Inr \<lparr>arguments = a, target_systems = t, functions' = f, metadata = m\<rparr>"
    by (rule CreateJobRequest_init_dict)
  have rest: "CreateJobRequest_init lax []
     = Inr \<lparr>arguments = None, target_systems = None, functions' = None, metadata = None\<rparr>"
    "CreateJobRequest_init lax [(''arguments'', JList [])]
     = Inr \<lparr>arguments = Some [], target_systems = None, functions' = None, metadata = None\<rparr>"
    "CreateJobRequest_init lax [(''target_systems'', JList [])]
     = Inr \<lparr>arguments = None, target_systems = Some [], functions' = None, metadata = None\<rparr>"
    "CreateJobRequest_init lax [(''functions'', JList [])]
     = Inr \<lparr>arguments = None, target_systems = None, functions' = Some [], metadata = None\<rparr>"
    "CreateJobRequest_init lax [(''metadata'', JObj [])]
     = Inr \<lparr>arguments = None, target_systems = None, functions' = None, metadata = Some []\<rparr>"
    by (simp_all add: model_defs field_defs)
  have wire: "CreateJobRequest_dict True
       \<lparr>arguments = None, target_systems = None, functions' = None, metadata = None\<rparr> = []"
    "CreateJobRequest_dict True
       \<lparr>arguments = Some [], target_systems = Some [], functions' = Some [], metadata = Some []\<rparr>
     = [(''args'', JList []), (''tgt'', JList []), (''fun'', JList []), (''metadata'', JObj [])]"
    by (simp_all add: model_defs field_defs json_of_list_list_def json_of_str_list_def)
  show ?thesis
    unfolding rest wire using subset by simp
qed

theorem CreateJobRequest_fields_optional_witness:
  "CreateJobRequest_init \<lparr>str_of = (\<lambda>v. None), dict_of = (\<lambda>v. None)\<rparr>
     [(''target_systems'', JList [JStr ''sys-1'']), (''metadata'', JObj [])]
   = Inr \<lparr>arguments = None, target_systems = Some [''sys-1''], functions' = None,
          metadata = Some []\<rparr>"
  using CreateJobRequest_fields_optional
    [of "\<lparr>str_of = (\<lambda>v. None), dict_of = (\<lambda>v. None)\<rparr>" None "Some [''sys-1'']" None "Some []"]
  by (simp add: CreateJobRequest_dict_def emit_def wire_key_def field_defs
      json_of_list_list_def json_of_str_list_def)

text \<open>
  C5.  \<^verbatim>\<open>arguments\<close> accepts every list of lists: for inner lists \<open>xss\<close> of arbitrary
  values, of any mixture of kinds, the constructor succeeds, through the semantic name
  and through the alias, and stores \<open>xss\<close> unchanged.
\<close>

theorem CreateJobRequest_arguments_unconstrained:
  "CreateJobRequest_init lax [(''arguments'', JList (map JList xss))]
     = Inr \<lparr>arguments = Some xss, target_systems = None, functions' = None, metadata = None\<rparr>
   \<and> CreateJobRequest_init lax [(''args'', JList (map JList xss))]
     = Inr \<lparr>arguments = Some xss, target_systems = None, functions' = None, metadata = None\<rparr>"
  by (simp add: model_defs field_defs)

theorem CreateJobRequest_arguments_unconstrained_witness:
  "CreateJobRequest_init \<lparr>str_of = (\<lambda>v. None), dict_of = (\<lambda>v. None)\<rparr>
     [(''arguments'',
       JList [JList [JStr ''A description'', JInt 7, JBool True, JNull],
              JList [],
              JList [JList [JInt (- 1)], JObj [(''grains'', JBool True)]]])]
   = Inr \<lparr>arguments = Some [[JStr ''A description'', JInt 7, JBool True, JNull],
                             [],
                             [JList [JInt (- 1)], JObj [(''grains'', JBool True)]]],
          target_systems = None, functions' = None, metadata = None\<rparr>"
  using CreateJobRequest_arguments_unconstrained
    [of "\<lparr>str_of = (\<lambda>v. None), dict_of = (\<lambda>v. None)\<rparr>"
        "[[JStr ''A description'', JInt 7, JBool True, JNull],
          [],
          [JList [JInt (- 1)], JObj [(''grains'', JBool True)]]]"]
  by simp

text \<open>
  C10.  \<^verbatim>\<open>metadata\<close> has no alias.  The declaration gives none, its key in the aliased form
  is its own name, where the value is found whenever the field is set, and an object
  with the key \<^verbatim>\<open>metadata\<close> parses to the request with that field.  The three other
  fields have a key different from their name.
\<close>

theorem CreateJobRequest_metadata_no_alias:
  "field_alias CreateJobRequest_metadata = None
   \<and> wire_key CreateJobRequest_metadata = ''metadata''
   \<and> map_of (CreateJobRequest_dict True r) ''metadata'' = map_option JObj (metadata r)
   \<and> CreateJobRequest_parse_obj lax [(''metadata'', JObj m)]
       = Inr \<lparr>arguments = None, target_systems = None, functions' = None, metadata = Some m\<rparr>
   \<and> wire_key CreateJobRequest_arguments \<noteq> field_name CreateJobRequest_arguments
   \<and> wire_key CreateJobRequest_target_systems \<noteq> field_name CreateJobRequest_target_systems
   \<and> wire_key CreateJobRequest_functions \<noteq> field_name CreateJobRequest_functions"
  by (cases r; cases "arguments r"; cases "target_systems r"; cases "functions' r";
      cases "metadata r")
     (simp_all add: model_defs field_defs)

theorem CreateJobRequest_metadata_no_alias_witness:
  "map_of (CreateJobRequest_dict True
             \<lparr>arguments = Some [[JStr ''A description'']], target_systems = Some [''sys-1''],
              functions' = Some [''system.set_computer_desc''],
              metadata = Some [(''queued'', JBool True)]\<rparr>) ''metadata''
   = Some (JObj [(''queued'', JBool True)])"
  using CreateJobRequest_metadata_no_alias
    [of "\<lparr>arguments = Some [[JStr ''A description'']], target_systems = Some [''sys-1''],
          functions' = Some [''system.set_computer_desc''],
          metadata = Some [(''queued'', JBool True)]\<rparr>"]
  by simp

end
